theory Spec2Isabelle
  imports Main "HOL-Library.Char_ord" "HOL-Library.List_Lexorder"
begin

section \<open>The storage, the trace and the environment\<close>

text \<open>
  The script \<^verbatim>\<open>speech-to-text-dropbox.py\<close> works on three directories and on the outside
  world only through \<^verbatim>\<open>os\<close>, \<^verbatim>\<open>shutil\<close>, \<^verbatim>\<open>datetime\<close>, \<^verbatim>\<open>logging\<close> and the Whisper model.
  A path is the list of its components, so \<^verbatim>\<open>os.path.join(d, name)\<close> is \<open>d @ [name]\<close> for the
  entry names \<^verbatim>\<open>os.listdir\<close> returns (they hold no separator). The storage is an association
  list from paths to nodes; its order is the listing order of every directory.
\<close>

type_synonym path = "string list"

datatype node = File string | Dir

type_synonym storage = "(path \<times> node) list"

text \<open>
  The exceptions that reach the script. All of them are subclasses of \<^verbatim>\<open>Exception\<close>;
  \<open>ModelError\<close> stands for whatever the Whisper model raises on audio it cannot read.
\<close>

datatype exn =
    ImportError
  | FileNotFoundError
  | FileExistsError
  | IsADirectoryError
  | NotADirectoryError
  | PermissionError
  | ShutilError
  | ModelError string

datatype level = INFO | WARNING | ERROR

text \<open>One constructor for every message the script logs, with the values it formats in.\<close>

datatype message =
    DirectoryReady string path
  | FileNotFound path
  | AlreadyProcessed path
  | ProcessingFile path
  | TranscriptionSaved path
  | ErrorProcessing path exn
  | DirectoryNotFound path
  | NoAudioFiles path
  | ProcessingPart nat nat path
  | AudiobookComplete path
  | MovedDirectory path
  | ErrorAudiobook exn
  | ProcessedBeforeError nat nat
  | MovedFile path
  | DropboxNotFound path
  | LoadingModel string
  | NoItems
  | ProcessingAsAudiobook string
  | ProcessingIndividual string
  | SkippingUnsupported string
  | ImportFailed
  | InstallHint
  | Starting string
  | ProcessingComplete

text \<open>
  The trace records, in order, every log line and every call that leaves the script:
  \<^verbatim>\<open>model.transcribe\<close>, \<^verbatim>\<open>open(..., 'w')\<close> and \<^verbatim>\<open>shutil.move\<close>.
\<close>

datatype event =
    Log level message
  | Transcribe path
  | Open path
  | Move path path

record world =
  files :: storage
  trace :: "event list"
  ticks :: nat

text \<open>
  The environment of one run: \<open>now k\<close> is the string that the \<open>k\<close>-th evaluation of
  \<^verbatim>\<open>datetime.now().strftime("%Y%m%d_%H%M%S")\<close> returns, \<open>readonly d\<close> says that the operating
  system refuses to create an entry in directory \<open>d\<close>, \<open>import_whisper\<close> is the exception of
  \<^verbatim>\<open>import whisper\<close> if there is one, and \<open>load_model\<close> is \<^verbatim>\<open>whisper.load_model\<close>: it raises
  or returns the model, whose \<^verbatim>\<open>transcribe(path)["text"]\<close> is a function from the audio path
  to the text or to the exception raised. The script never writes to an audio source, so
  the answer of the model for a path is the same during one run.
\<close>

type_synonym model = "path \<Rightarrow> exn + string"

record env =
  now :: "nat \<Rightarrow> string"
  readonly :: "path \<Rightarrow> bool"
  import_whisper :: "exn option"
  load_model :: "string \<Rightarrow> exn + model"

definition log :: "level \<Rightarrow> message \<Rightarrow> world \<Rightarrow> world" where
  "log l m w = w\<lparr>trace := trace w @ [Log l m]\<rparr>"

definition call :: "event \<Rightarrow> world \<Rightarrow> world" where
  "call e w = w\<lparr>trace := trace w @ [e]\<rparr>"

definition strftime_now :: "env \<Rightarrow> world \<Rightarrow> string \<times> world" where
  "strftime_now E w = (now E (ticks w), w\<lparr>ticks := Suc (ticks w)\<rparr>)"

section \<open>The operating system\<close>

definition exists :: "storage \<Rightarrow> path \<Rightarrow> bool" where
  "exists F p = (map_of F p \<noteq> None)"

definition isdir :: "storage \<Rightarrow> path \<Rightarrow> bool" where
  "isdir F p = (map_of F p = Some Dir)"

definition basename :: "path \<Rightarrow> string" where
  "basename p = (if p = [] then [] else last p)"

definition dirname :: "path \<Rightarrow> path" where
  "dirname p = butlast p"

text \<open>\<^verbatim>\<open>os.listdir\<close>: the names of the entries directly under \<open>d\<close>, in storage order.\<close>

definition listdir :: "storage \<Rightarrow> path \<Rightarrow> exn + string list" where
  "listdir F d =
     (if isdir F d then Inr (map (\<lambda>(p, n). last p) (filter (\<lambda>(p, n). p \<noteq> [] \<and> butlast p = d) F))
      else if exists F d then Inl NotADirectoryError
      else Inl FileNotFoundError)"

text \<open>
  \<^verbatim>\<open>open(p, 'w')\<close>: an existing file is truncated, a directory cannot be opened, a new file
  needs an existing parent directory in which entries can be created.
\<close>

definition truncate_file :: "storage \<Rightarrow> path \<Rightarrow> storage" where
  "truncate_file F p = map (\<lambda>(q, n). if q = p then (q, File []) else (q, n)) F"

definition open_w :: "env \<Rightarrow> storage \<Rightarrow> path \<Rightarrow> exn + storage" where
  "open_w E F p =
     (case map_of F p of
        Some Dir \<Rightarrow> Inl IsADirectoryError
      | Some (File c) \<Rightarrow> Inr (truncate_file F p)
      | None \<Rightarrow>
          if \<not> isdir F (dirname p) then
            (if exists F (dirname p) then Inl NotADirectoryError else Inl FileNotFoundError)
          else if readonly E (dirname p) then Inl PermissionError
          else Inr (F @ [(p, File [])]))"

text \<open>\<^verbatim>\<open>f.write(s)\<close> on the file opened at \<open>p\<close>: the text is appended.\<close>

definition fwrite :: "storage \<Rightarrow> path \<Rightarrow> string \<Rightarrow> storage" where
  "fwrite F p s =
     map (\<lambda>(q, n). if q = p then (case n of File c \<Rightarrow> (q, File (c @ s)) | Dir \<Rightarrow> (q, n))
                    else (q, n)) F"

text \<open>
  \<^verbatim>\<open>os.makedirs(p)\<close>: every missing directory on the way to \<open>p\<close> is created, then \<open>p\<close>
  itself. A file on the way is an error; with \<^verbatim>\<open>exist_ok=True\<close> a directory at \<open>p\<close> is
  accepted and a file at \<open>p\<close> is not.
\<close>

fun mkdir_all :: "env \<Rightarrow> storage \<Rightarrow> path list \<Rightarrow> exn + storage" where
  "mkdir_all E F [] = Inr F"
| "mkdir_all E F (q # qs) =
     (if isdir F q then mkdir_all E F qs
      else if exists F q then Inl (if qs = [] then FileExistsError else NotADirectoryError)
      else if readonly E (dirname q) then Inl PermissionError
      else mkdir_all E (F @ [(q, Dir)]) qs)"

definition makedirs :: "env \<Rightarrow> storage \<Rightarrow> path \<Rightarrow> exn + storage" where
  "makedirs E F p = mkdir_all E F (map (\<lambda>k. take k p) [1..<Suc (length p)])"

text \<open>
  \<^verbatim>\<open>shutil.move(src, dst)\<close>. When \<open>dst\<close> is an existing directory the source goes inside it,
  and an entry of that name there is an error. Otherwise the source is renamed to \<open>dst\<close>:
  a file replaces an existing file (\<^verbatim>\<open>os.rename\<close> on POSIX, copy and unlink elsewhere) and
  a directory cannot replace a file. A new entry needs a parent directory in which entries
  can be created; when the parent is missing, a file is refused and a directory is copied
  by \<^verbatim>\<open>copytree\<close>, whose \<^verbatim>\<open>os.makedirs\<close> creates the missing parents first. A refused
  move changes nothing. Permissions are modelled on the side of the destination only:
  removing the source from its directory is always allowed.
\<close>

definition is_prefix :: "path \<Rightarrow> path \<Rightarrow> bool" where
  "is_prefix p q = (take (length p) q = p)"

definition rename :: "storage \<Rightarrow> path \<Rightarrow> path \<Rightarrow> storage" where
  "rename F src dst =
     map (\<lambda>(q, n). if is_prefix src q then (dst @ drop (length src) q, n) else (q, n))
       (filter (\<lambda>(q, n). \<not> (q = dst \<and> src \<noteq> dst)) F)"

definition shutil_move :: "env \<Rightarrow> storage \<Rightarrow> path \<Rightarrow> path \<Rightarrow> exn + storage" where
  "shutil_move E F src dst =
     (if isdir F dst \<and> src = dst then Inr F
      else
        let real_dst = (if isdir F dst then dst @ [basename src] else dst) in
        if isdir F dst \<and> exists F real_dst then Inl ShutilError
        else if \<not> exists F src then Inl FileNotFoundError
        else if isdir F src \<and> is_prefix src dst then Inl ShutilError
        else if exists F real_dst then
          (if isdir F src then Inl FileExistsError else Inr (rename F src real_dst))
        else if \<not> isdir F (dirname real_dst) then
          (if isdir F src then
             (case makedirs E F real_dst of
                Inl e \<Rightarrow> Inl e
              | Inr F1 \<Rightarrow> Inr (rename F1 src real_dst))
           else if exists F (dirname real_dst) then Inl NotADirectoryError
           else Inl FileNotFoundError)
        else if readonly E (dirname real_dst) then Inl PermissionError
        else Inr (rename F src real_dst))"

section \<open>Strings\<close>

text \<open>\<^verbatim>\<open>str.lower\<close> on the ASCII letters, which is all that the test for \<^verbatim>\<open>.mp3\<close> can see.\<close>

definition lower_char :: "char \<Rightarrow> char" where
  "lower_char c =
     (case map_of (zip ''ABCDEFGHIJKLMNOPQRSTUVWXYZ'' ''abcdefghijklmnopqrstuvwxyz'') c of
        Some d \<Rightarrow> d
      | None \<Rightarrow> c)"

definition lower :: "string \<Rightarrow> string" where
  "lower s = map lower_char s"

definition endswith :: "string \<Rightarrow> string \<Rightarrow> bool" where
  "endswith s t = (length t \<le> length s \<and> drop (length s - length t) s = t)"

text \<open>
  \<^verbatim>\<open>os.path.splitext\<close> on a file name: the extension starts at the last dot, unless only
  dots come before it.
\<close>

definition splitext :: "string \<Rightarrow> string \<times> string" where
  "splitext p =
     (if CHR ''.'' \<in> set (dropWhile (\<lambda>c. c = CHR ''.'') p) then
        (let n = length p - Suc (length (takeWhile (\<lambda>c. c \<noteq> CHR ''.'') (rev p)))
         in (take n p, drop n p))
      else (p, []))"

section \<open>The script\<close>

definition audio_extensions :: "string list" where
  "audio_extensions = [''.mp3'']"

definition is_audio_file :: "string \<Rightarrow> bool" where
  "is_audio_file filename = list_ex (\<lambda>ext. endswith (lower filename) ext) audio_extensions"

definition get_output_filename :: "path \<Rightarrow> path \<Rightarrow> path" where
  "get_output_filename input_path output_dir =
     (let filename = basename input_path;
          base_name = fst (splitext filename)
      in output_dir @ [base_name @ ''.txt''])"

text \<open>
  \<^verbatim>\<open>process_audio_file\<close>. The body of its \<^verbatim>\<open>try\<close> transcribes first and opens the output
  afterwards; every exception is caught, logged and answered with \<^verbatim>\<open>False\<close>.
\<close>

definition process_audio_file :: "env \<Rightarrow> model \<Rightarrow> path \<Rightarrow> path \<Rightarrow> world \<Rightarrow> bool \<times> world" where
  "process_audio_file E M file_path output_dir w =
     (if \<not> exists (files w) file_path then (False, log ERROR (FileNotFound file_path) w)
      else
        let output_path = get_output_filename file_path output_dir in
        if exists (files w) output_path then (True, log INFO (AlreadyProcessed file_path) w)
        else
          let w1 = call (Transcribe file_path) (log INFO (ProcessingFile file_path) w) in
          case M file_path of
            Inl e \<Rightarrow> (False, log ERROR (ErrorProcessing file_path e) w1)
          | Inr transcript \<Rightarrow>
              let w2 = call (Open output_path) w1 in
              (case open_w E (files w2) output_path of
                 Inl e \<Rightarrow> (False, log ERROR (ErrorProcessing file_path e) w2)
               | Inr F \<Rightarrow>
                   (True, log INFO (TranscriptionSaved output_path)
                            (w2\<lparr>files := fwrite F output_path transcript\<rparr>))))"

definition chapter_header :: "string \<Rightarrow> string" where
  "chapter_header file_name =
     [CHR 0x0A, CHR 0x0A] @ ''--- Chapter/Part: '' @ file_name @ '' ---'' @ [CHR 0x0A, CHR 0x0A]"

text \<open>
  The \<^verbatim>\<open>for i, audio_file in enumerate(audio_files)\<close> loop of \<^verbatim>\<open>process_directory\<close>, with the
  aggregate output open at \<open>out\<close>. It returns the exception that left the loop, if any, and
  \<^verbatim>\<open>processed_files\<close>.
\<close>

fun transcribe_parts ::
  "model \<Rightarrow> path \<Rightarrow> nat \<Rightarrow> nat \<Rightarrow> path list \<Rightarrow> path list \<Rightarrow> world
     \<Rightarrow> (exn + unit) \<times> path list \<times> world" where
  "transcribe_parts M out n i [] processed_files w = (Inr (), processed_files, w)"
| "transcribe_parts M out n i (audio_file # rest) processed_files w =
     (let w1 = call (Transcribe audio_file) (log INFO (ProcessingPart (i + 1) n audio_file) w) in
      case M audio_file of
        Inl e \<Rightarrow> (Inl e, processed_files, w1)
      | Inr transcript \<Rightarrow>
          let file_name = basename audio_file;
              F1 = fwrite (files w1) out (chapter_header file_name);
              F2 = fwrite F1 out transcript
          in transcribe_parts M out n (i + 1) rest (processed_files @ [audio_file])
               (w1\<lparr>files := F2\<rparr>))"

text \<open>\<^verbatim>\<open>f"{processed_path}_{timestamp}"\<close>: the text is appended to the last component.\<close>

definition path_suffix :: "path \<Rightarrow> string \<Rightarrow> path" where
  "path_suffix p s = (if p = [] then [s] else butlast p @ [last p @ s])"

text \<open>The body of the \<^verbatim>\<open>try\<close> of \<^verbatim>\<open>process_directory\<close>.\<close>

definition transcribe_and_archive ::
  "env \<Rightarrow> model \<Rightarrow> path \<Rightarrow> path \<Rightarrow> string \<Rightarrow> path \<Rightarrow> path list \<Rightarrow> world
     \<Rightarrow> (exn + unit) \<times> path list \<times> world" where
  "transcribe_and_archive E M dir_path processed_dir timestamp audiobook_output audio_files w =
     (let w0 = call (Open audiobook_output) w in
      case open_w E (files w0) audiobook_output of
        Inl e \<Rightarrow> (Inl e, [], w0)
      | Inr F \<Rightarrow>
          (case transcribe_parts M audiobook_output (length audio_files) 0 audio_files []
                  (w0\<lparr>files := F\<rparr>) of
             (Inl e, processed_files, w1) \<Rightarrow> (Inl e, processed_files, w1)
           | (Inr u, processed_files, w1) \<Rightarrow>
               let w2 = log INFO (AudiobookComplete audiobook_output) w1;
                   processed_path0 = processed_dir @ [basename dir_path];
                   processed_path =
                     (if exists (files w2) processed_path0
                      then path_suffix processed_path0 (''_'' @ timestamp)
                      else processed_path0);
                   w3 = call (Move dir_path processed_path) w2
               in (case shutil_move E (files w3) dir_path processed_path of
                     Inl e \<Rightarrow> (Inl e, processed_files, w3)
                   | Inr F' \<Rightarrow>
                       (Inr (), processed_files,
                        log INFO (MovedDirectory processed_path) (w3\<lparr>files := F'\<rparr>)))))"

definition process_directory ::
  "env \<Rightarrow> model \<Rightarrow> path \<Rightarrow> path \<Rightarrow> path \<Rightarrow> world \<Rightarrow> (exn + unit) \<times> world" where
  "process_directory E M dir_path output_dir processed_dir w =
     (if \<not> isdir (files w) dir_path then (Inr (), log ERROR (DirectoryNotFound dir_path) w)
      else
        let dir_name = basename dir_path;
            (timestamp, w0) = strftime_now E w;
            audiobook_output = output_dir @ [dir_name @ ''_'' @ timestamp @ ''.txt'']
        in case listdir (files w0) dir_path of
             Inl e \<Rightarrow> (Inl e, w0)
           | Inr names \<Rightarrow>
               let audio_files = map (\<lambda>f. dir_path @ [f]) (filter is_audio_file (sort names)) in
               if audio_files = [] then (Inr (), log WARNING (NoAudioFiles dir_path) w0)
               else
                 (case transcribe_and_archive E M dir_path processed_dir timestamp
                         audiobook_output audio_files w0 of
                    (Inl e, processed_files, w1) \<Rightarrow>
                      (Inr (),
                       log INFO (ProcessedBeforeError (length processed_files) (length audio_files))
                         (log ERROR (ErrorAudiobook e) w1))
                  | (Inr u, processed_files, w1) \<Rightarrow> (Inr (), w1)))"

text \<open>\<^verbatim>\<open>move_to_processed\<close> has no \<^verbatim>\<open>try\<close>: what \<^verbatim>\<open>shutil.move\<close> raises leaves the function.\<close>

definition move_to_processed :: "env \<Rightarrow> path \<Rightarrow> path \<Rightarrow> world \<Rightarrow> (exn + unit) \<times> world" where
  "move_to_processed E file_path processed_dir w =
     (if \<not> exists (files w) file_path then (Inr (), w)
      else
        let filename = basename file_path;
            dest_path0 = processed_dir @ [filename];
            (dest_path, w1) =
              (if exists (files w) dest_path0 then
                 (let (timestamp, w') = strftime_now E w;
                      (base_name, extension) = splitext filename
                  in (processed_dir @ [base_name @ ''_'' @ timestamp @ extension], w'))
               else (dest_path0, w));
            w2 = call (Move file_path dest_path) w1
        in case shutil_move E (files w2) file_path dest_path of
             Inl e \<Rightarrow> (Inl e, w2)
           | Inr F \<Rightarrow> (Inr (), log INFO (MovedFile dest_path) (w2\<lparr>files := F\<rparr>)))"

text \<open>The body of the \<^verbatim>\<open>for item in items\<close> loop of \<^verbatim>\<open>process_dropbox\<close>, and the loop.\<close>

definition process_item ::
  "env \<Rightarrow> model \<Rightarrow> path \<Rightarrow> path \<Rightarrow> path \<Rightarrow> string \<Rightarrow> world \<Rightarrow> (exn + unit) \<times> world" where
  "process_item E M dropbox_dir output_dir processed_dir item w =
     (let item_path = dropbox_dir @ [item] in
      if isdir (files w) item_path then
        process_directory E M item_path output_dir processed_dir
          (log INFO (ProcessingAsAudiobook item) w)
      else if is_audio_file item then
        (let (success, w1) =
               process_audio_file E M item_path output_dir (log INFO (ProcessingIndividual item) w)
         in if success then move_to_processed E item_path processed_dir w1 else (Inr (), w1))
      else (Inr (), log WARNING (SkippingUnsupported item) w))"

fun process_items ::
  "env \<Rightarrow> model \<Rightarrow> path \<Rightarrow> path \<Rightarrow> path \<Rightarrow> string list \<Rightarrow> world \<Rightarrow> (exn + unit) \<times> world" where
  "process_items E M dropbox_dir output_dir processed_dir [] w = (Inr (), w)"
| "process_items E M dropbox_dir output_dir processed_dir (item # items) w =
     (case process_item E M dropbox_dir output_dir processed_dir item w of
        (Inl e, w') \<Rightarrow> (Inl e, w')
      | (Inr u, w') \<Rightarrow> process_items E M dropbox_dir output_dir processed_dir items w')"

text \<open>
  How a call ends: it returns, an exception leaves it, or \<^verbatim>\<open>sys.exit(n)\<close> was called.
\<close>

datatype status = Returned | Raised exn | SysExit nat

text \<open>The body of the \<^verbatim>\<open>try\<close> of \<^verbatim>\<open>process_dropbox\<close>.\<close>

definition load_and_drain ::
  "env \<Rightarrow> path \<Rightarrow> path \<Rightarrow> path \<Rightarrow> string \<Rightarrow> world \<Rightarrow> (exn + unit) \<times> world" where
  "load_and_drain E dropbox_dir output_dir processed_dir model_name w =
     (case import_whisper E of
        Some e \<Rightarrow> (Inl e, w)
      | None \<Rightarrow>
          let w1 = log INFO (LoadingModel model_name) w in
          (case load_model E model_name of
             Inl e \<Rightarrow> (Inl e, w1)
           | Inr M \<Rightarrow>
               (case listdir (files w1) dropbox_dir of
                  Inl e \<Rightarrow> (Inl e, w1)
                | Inr items \<Rightarrow>
                    if items = [] then (Inr (), log INFO NoItems w1)
                    else process_items E M dropbox_dir output_dir processed_dir items w1)))"

definition process_dropbox ::
  "env \<Rightarrow> path \<Rightarrow> path \<Rightarrow> path \<Rightarrow> string \<Rightarrow> world \<Rightarrow> status \<times> world" where
  "process_dropbox E dropbox_dir output_dir processed_dir model_name w =
     (if \<not> exists (files w) dropbox_dir then (Returned, log ERROR (DropboxNotFound dropbox_dir) w)
      else
        case load_and_drain E dropbox_dir output_dir processed_dir model_name w of
          (Inl e, w') \<Rightarrow>
            if e = ImportError then (SysExit 1, log ERROR InstallHint (log ERROR ImportFailed w'))
            else (Raised e, w')
        | (Inr u, w') \<Rightarrow> (Returned, w'))"

record directories =
  d_dropbox :: path
  d_output :: path
  d_processed :: path

fun make_directories :: "env \<Rightarrow> (string \<times> path) list \<Rightarrow> world \<Rightarrow> (exn + unit) \<times> world" where
  "make_directories E [] w = (Inr (), w)"
| "make_directories E ((name, p) # rest) w =
     (case makedirs E (files w) p of
        Inl e \<Rightarrow> (Inl e, w)
      | Inr F \<Rightarrow> make_directories E rest (log INFO (DirectoryReady name p) (w\<lparr>files := F\<rparr>)))"

definition setup_directories :: "env \<Rightarrow> path \<Rightarrow> world \<Rightarrow> (exn + directories) \<times> world" where
  "setup_directories E base_dir w =
     (let dirs = \<lparr>d_dropbox = base_dir @ [''dropbox''], d_output = base_dir @ [''output''],
                  d_processed = base_dir @ [''processed'']\<rparr>
      in case make_directories E
                [(''dropbox'', d_dropbox dirs), (''output'', d_output dirs),
                 (''processed'', d_processed dirs)] w of
           (Inl e, w') \<Rightarrow> (Inl e, w')
         | (Inr u, w') \<Rightarrow> (Inr dirs, w'))"

text \<open>
  \<^verbatim>\<open>main\<close>, with the parsed arguments as parameters, and the exit status of the process:
  0 when \<^verbatim>\<open>main\<close> returns, the argument of \<^verbatim>\<open>sys.exit\<close>, and 1 when an exception is not caught.
\<close>

definition main :: "env \<Rightarrow> string \<Rightarrow> path \<Rightarrow> world \<Rightarrow> status \<times> world" where
  "main E model_name base_dir w =
     (case setup_directories E base_dir w of
        (Inl e, w1) \<Rightarrow> (Raised e, w1)
      | (Inr dirs, w1) \<Rightarrow>
          (case process_dropbox E (d_dropbox dirs) (d_output dirs) (d_processed dirs) model_name
                  (log INFO (Starting model_name) w1) of
             (Returned, w2) \<Rightarrow> (Returned, log INFO ProcessingComplete w2)
           | (st, w2) \<Rightarrow> (st, w2)))"

fun exit_status :: "status \<Rightarrow> nat" where
  "exit_status Returned = 0"
| "exit_status (Raised e) = 1"
| "exit_status (SysExit n) = n"

section \<open>Functions used to state the properties\<close>

text \<open>
  The events that the loop of \<^verbatim>\<open>process_directory\<close> leaves in the trace for parts that are
  transcribed, the text of a part (empty when the model raises), and the sections the loop
  writes for a list of parts.
\<close>

fun part_events :: "nat \<Rightarrow> nat \<Rightarrow> path list \<Rightarrow> event list" where
  "part_events n i [] = []"
| "part_events n i (a # rest) =
     Log INFO (ProcessingPart (i + 1) n a) # Transcribe a # part_events n (i + 1) rest"

definition text_of :: "model \<Rightarrow> path \<Rightarrow> string" where
  "text_of M a = (case M a of Inl e \<Rightarrow> [] | Inr t \<Rightarrow> t)"

definition sections :: "model \<Rightarrow> path list \<Rightarrow> string" where
  "sections M parts = concat (map (\<lambda>a. chapter_header (basename a) @ text_of M a) parts)"

section \<open>Example inputs\<close>

text \<open>
  A model that cannot read \<^verbatim>\<open>b.mp3\<close>, a clock that stands at one second, and a drop
  location under \<^verbatim>\<open>srv\<close>. The collection \<^verbatim>\<open>book\<close> lists its parts out of order.
\<close>

definition example_model :: model where
  "example_model p =
     (if basename p = ''b.mp3'' then Inl (ModelError ''unreadable audio'')
      else Inr (''text of '' @ basename p))"

definition example_env :: env where
  "example_env = \<lparr>now = (\<lambda>k. ''20240101_120000''), readonly = (\<lambda>d. False),
     import_whisper = None, load_model = (\<lambda>name. Inr example_model)\<rparr>"

definition book_storage :: storage where
  "book_storage =
     [([''srv''], Dir), ([''srv'', ''dropbox''], Dir), ([''srv'', ''output''], Dir),
      ([''srv'', ''processed''], Dir),
      ([''srv'', ''dropbox'', ''book''], Dir),
      ([''srv'', ''dropbox'', ''book'', ''c.mp3''], File ''C''),
      ([''srv'', ''dropbox'', ''book'', ''a.mp3''], File ''A''),
      ([''srv'', ''dropbox'', ''book'', ''b.mp3''], File ''B'')]"

definition book_world :: world where
  "book_world = \<lparr>files = book_storage, trace = [], ticks = 0\<rparr>"

definition draft_storage :: storage where
  "draft_storage =
     [([''srv''], Dir), ([''srv'', ''dropbox''], Dir), ([''srv'', ''output''], Dir),
      ([''srv'', ''processed''], Dir),
      ([''srv'', ''output'', ''draft_20240101_120000.txt''], File ''stale''),
      ([''srv'', ''dropbox'', ''draft''], Dir),
      ([''srv'', ''dropbox'', ''draft'', ''c.mp3''], File ''C''),
      ([''srv'', ''dropbox'', ''draft'', ''b.mp3''], File ''B'')]"

definition draft_world :: world where
  "draft_world = \<lparr>files = draft_storage, trace = [], ticks = 0\<rparr>"

definition story_storage :: storage where
  "story_storage =
     [([''srv''], Dir), ([''srv'', ''dropbox''], Dir), ([''srv'', ''output''], Dir),
      ([''srv'', ''processed''], Dir),
      ([''srv'', ''dropbox'', ''story''], Dir),
      ([''srv'', ''dropbox'', ''story'', ''c.mp3''], File ''C''),
      ([''srv'', ''dropbox'', ''story'', ''readme.txt''], File ''R''),
      ([''srv'', ''dropbox'', ''story'', ''a.mp3''], File ''A'')]"

definition story_world :: world where
  "story_world = \<lparr>files = story_storage, trace = [], ticks = 0\<rparr>"

definition notes_storage :: storage where
  "notes_storage =
     [([''srv''], Dir), ([''srv'', ''dropbox''], Dir), ([''srv'', ''output''], Dir),
      ([''srv'', ''processed''], Dir),
      ([''srv'', ''dropbox'', ''notes''], Dir),
      ([''srv'', ''dropbox'', ''notes'', ''readme.txt''], File ''R''),
      ([''srv'', ''dropbox'', ''notes'', ''cover.jpg''], File ''J'')]"

definition notes_world :: world where
  "notes_world = \<lparr>files = notes_storage, trace = [], ticks = 0\<rparr>"

definition single_storage :: storage where
  "single_storage =
     [([''srv''], Dir), ([''srv'', ''dropbox''], Dir), ([''srv'', ''output''], Dir),
      ([''srv'', ''processed''], Dir),
      ([''srv'', ''dropbox'', ''b.mp3''], File ''B'')]"

definition single_world :: world where
  "single_world = \<lparr>files = single_storage, trace = [], ticks = 0\<rparr>"

definition rerun_storage :: storage where
  "rerun_storage =
     [([''srv''], Dir), ([''srv'', ''dropbox''], Dir), ([''srv'', ''output''], Dir),
      ([''srv'', ''processed''], Dir),
      ([''srv'', ''output'', ''talk.txt''], File ''earlier transcript''),
      ([''srv'', ''dropbox'', ''talk.mp3''], File ''T'')]"

definition rerun_world :: world where
  "rerun_world = \<lparr>files = rerun_storage, trace = [], ticks = 0\<rparr>"

definition readonly_env :: env where
  "readonly_env = example_env\<lparr>readonly := (\<lambda>d. d = [''srv'', ''processed''])\<rparr>"

definition queue_storage :: storage where
  "queue_storage =
     [([''srv''], Dir), ([''srv'', ''dropbox''], Dir), ([''srv'', ''output''], Dir),
      ([''srv'', ''processed''], Dir),
      ([''srv'', ''dropbox'', ''talk.mp3''], File ''T''),
      ([''srv'', ''dropbox'', ''next.mp3''], File ''N'')]"

definition queue_world :: world where
  "queue_world = \<lparr>files = queue_storage, trace = [], ticks = 0\<rparr>"

definition collision_storage :: storage where
  "collision_storage =
     [([''srv''], Dir), ([''srv'', ''dropbox''], Dir), ([''srv'', ''output''], Dir),
      ([''srv'', ''processed''], Dir),
      ([''srv'', ''processed'', ''talk.mp3''], File ''first talk''),
      ([''srv'', ''processed'', ''talk_20240101_120000.mp3''], File ''second talk''),
      ([''srv'', ''output'', ''talk.txt''], File ''earlier transcript''),
      ([''srv'', ''dropbox'', ''talk.mp3''], File ''third talk'')]"

definition collision_world :: world where
  "collision_world = \<lparr>files = collision_storage, trace = [], ticks = 0\<rparr>"

definition sealed_env :: env where
  "sealed_env = example_env\<lparr>readonly := (\<lambda>d. d = [''srv'', ''output''])\<rparr>"

section \<open>Storage and loop lemmas\<close>

lemma fwrite_Nil: "fwrite F p [] = F"
  by (induction F) (auto simp: fwrite_def split: node.splits)

lemma fwrite_fwrite: "fwrite (fwrite F p s) p t = fwrite F p (s @ t)"
  by (induction F) (auto simp: fwrite_def split: node.splits)

lemma map_of_fwrite:
  "map_of (fwrite F p s) q =
     (if q = p then (case map_of F p of Some (File c) \<Rightarrow> Some (File (c @ s)) | x \<Rightarrow> x)
      else map_of F q)"
  by (induction F) (auto simp: fwrite_def split: node.splits)

lemma map_of_truncate:
  "map_of (truncate_file F p) q =
     (if q = p then (case map_of F p of Some n \<Rightarrow> Some (File []) | None \<Rightarrow> None) else map_of F q)"
  by (induction F) (auto simp: truncate_file_def)

lemma map_of_open_w:
  assumes "open_w E F p = Inr F'"
  shows "map_of F' q = (if q = p then Some (File []) else map_of F q)"
  using assms
  by (auto simp: open_w_def map_of_truncate map_add_def split: option.splits node.splits if_splits)


lemma transcribe_parts_fail:
  "\<forall>a\<in>set pre. \<exists>t. M a = Inr t \<Longrightarrow> M a = Inl e \<Longrightarrow>
   transcribe_parts M out n i (pre @ a # post) done w =
     (Inl e, done @ pre,
      w\<lparr>files := fwrite (files w) out (sections M pre),
        trace := trace w @ part_events n i pre
                 @ [Log INFO (ProcessingPart (i + length pre + 1) n a), Transcribe a]\<rparr>)"
proof (induction pre arbitrary: i "done" w)
  case Nil
  then show ?case by (simp add: sections_def fwrite_Nil call_def log_def)
next
  case (Cons b pre)
  then obtain t where t: "M b = Inr t" by auto
  from Cons.prems have rest: "\<forall>a\<in>set pre. \<exists>t. M a = Inr t" by simp
  show ?case
    by (simp add: t Cons.IH[OF rest Cons.prems(2)] call_def log_def fwrite_fwrite sections_def text_of_def)
qed

lemma map_of_rename_other:
  "\<not> is_prefix src q \<Longrightarrow> \<not> is_prefix dst q \<Longrightarrow> map_of (rename F src dst) q = map_of F q"
  by (induction F) (auto simp: rename_def is_prefix_def)




lemma listdir_isdir: "listdir F d = Inr names \<Longrightarrow> isdir F d"
  by (auto simp: listdir_def split: if_splits)

lemma process_directory_nonempty:
  assumes "listdir (files w) dir_path = Inr names"
    and "parts = map (\<lambda>f. dir_path @ [f]) (filter is_audio_file (sort names))"
    and "parts \<noteq> []"
    and "out = output_dir @ [basename dir_path @ ''_'' @ now E (ticks w) @ ''.txt'']"
  shows "process_directory E M dir_path output_dir processed_dir w =
     (case transcribe_and_archive E M dir_path processed_dir (now E (ticks w)) out parts
             (w\<lparr>ticks := Suc (ticks w)\<rparr>) of
        (Inl e, pf, w1) \<Rightarrow>
          (Inr (), log INFO (ProcessedBeforeError (length pf) (length parts))
                     (log ERROR (ErrorAudiobook e) w1))
      | (Inr u, pf, w1) \<Rightarrow> (Inr (), w1))"
  unfolding assms(2) assms(4)
  using assms(1) assms(3)[unfolded assms(2)] listdir_isdir[OF assms(1)]
  by (simp add: process_directory_def strftime_now_def Let_def)

lemma archive_open_fails:
  "open_w E (files w) out = Inl e \<Longrightarrow>
   transcribe_and_archive E M dir_path processed_dir ts out parts w =
     (Inl e, [], w\<lparr>trace := trace w @ [Open out]\<rparr>)"
  by (simp add: transcribe_and_archive_def call_def)

lemma archive_part_fails:
  assumes "open_w E (files w) out = Inr F"
    and "\<forall>p\<in>set pre. \<exists>t. M p = Inr t"
    and "M a = Inl e"
  shows "transcribe_and_archive E M dir_path processed_dir ts out (pre @ a # post) w =
     (Inl e, pre,
      w\<lparr>files := fwrite F out (sections M pre),
        trace := trace w @ Open out # part_events (length (pre @ a # post)) 0 pre
                 @ [Log INFO (ProcessingPart (length pre + 1) (length (pre @ a # post)) a),
                    Transcribe a]\<rparr>)"
  using assms(1)
  by (simp add: transcribe_and_archive_def call_def transcribe_parts_fail[OF assms(2,3)])

lemma transcribe_parts_trace:
  "\<exists>evs. trace (snd (snd (transcribe_parts M out n i parts done w))) = trace w @ evs"
proof (induction parts arbitrary: i "done" w)
  case Nil
  then show ?case by simp
next
  case (Cons a parts)
  show ?case
  proof (cases "M a")
    case (Inl e)
    then show ?thesis by (simp add: call_def log_def)
  next
    case (Inr t)
    obtain evs where
      "trace (snd (snd (transcribe_parts M out n (i + 1) parts (done @ [a])
         ((call (Transcribe a) (log INFO (ProcessingPart (i + 1) n a) w))
            \<lparr>files := fwrite (fwrite (files (call (Transcribe a) (log INFO (ProcessingPart (i + 1) n a) w)))
                 out (chapter_header (basename a))) out t\<rparr>))))
       = trace ((call (Transcribe a) (log INFO (ProcessingPart (i + 1) n a) w))
            \<lparr>files := fwrite (fwrite (files (call (Transcribe a) (log INFO (ProcessingPart (i + 1) n a) w)))
                 out (chapter_header (basename a))) out t\<rparr>) @ evs"
      using Cons.IH by blast
    then show ?thesis using Inr by (simp add: call_def log_def Let_def)
  qed
qed

lemma archive_trace:
  "\<exists>evs. trace (snd (snd (transcribe_and_archive E M dir_path processed_dir ts out parts w)))
           = trace w @ Open out # evs"
proof (cases "open_w E (files w) out")
  case (Inl e)
  then show ?thesis by (simp add: archive_open_fails)
next
  case (Inr F)
  let ?w = "w\<lparr>trace := trace w @ [Open out], files := F\<rparr>"
  obtain r pf w1 where tp: "transcribe_parts M out (length parts) 0 parts [] ?w = (r, pf, w1)"
    by (metis prod_cases3)
  obtain evs where evs: "trace w1 = trace w @ Open out # evs"
    using transcribe_parts_trace[of M out "length parts" 0 parts "[]" ?w]
    by (auto simp: tp)
  show ?thesis
    using Inr tp evs
    by (cases r) (auto simp: transcribe_and_archive_def call_def log_def Let_def split: sum.splits)
qed

lemma is_prefix_snoc: "is_prefix (d @ [x]) q \<Longrightarrow> is_prefix d q"
proof -
  assume "is_prefix (d @ [x]) q"
  then have "take (length d) (take (Suc (length d)) q) = take (length d) (d @ [x])"
    by (simp add: is_prefix_def)
  then show ?thesis by (simp add: is_prefix_def)
qed

lemma not_prefix_sibling: "a \<noteq> b \<Longrightarrow> \<not> is_prefix (base @ a # xs) (base @ b # ys)"
  by (simp add: is_prefix_def)

lemma mkdir_all_other:
  "mkdir_all E F qs = Inr F' \<Longrightarrow> q \<notin> set qs \<Longrightarrow> map_of F' q = map_of F q"
proof (induction qs arbitrary: F)
  case Nil
  then show ?case by simp
next
  case (Cons a qs)
  show ?case
  proof (cases "isdir F a")
    case True
    then show ?thesis using Cons by simp
  next
    case False
    then have step: "mkdir_all E (F @ [(a, Dir)]) qs = Inr F'"
      using Cons.prems(1) by (simp split: if_splits)
    have "map_of F' q = map_of (F @ [(a, Dir)]) q"
      using Cons.IH[OF step] Cons.prems(2) by simp
    then show ?thesis using Cons.prems(2) by (simp add: map_add_def split: option.splits)
  qed
qed

lemma prefixes_are_prefixes:
  "q \<in> set (map (\<lambda>k. take k p) [1..<Suc (length p)]) \<Longrightarrow> is_prefix q p"
  by (auto simp: is_prefix_def min_def)

lemma makedirs_other:
  "makedirs E F p = Inr F' \<Longrightarrow> \<not> is_prefix q p \<Longrightarrow> map_of F' q = map_of F q"
  unfolding makedirs_def using mkdir_all_other prefixes_are_prefixes by blast

lemma shutil_move_other:
  assumes "shutil_move E F src dst = Inr F'"
    and "\<not> is_prefix src q" and "\<not> is_prefix dst q" and "\<not> is_prefix q dst"
  shows "map_of F' q = map_of F q"
proof -
  have "\<not> is_prefix (dst @ [basename src]) q"
    using assms(3) is_prefix_snoc by blast
  then show ?thesis
    using assms
    by (auto simp: shutil_move_def Let_def map_of_rename_other dirname_def makedirs_other
        split: if_splits sum.splits)
qed




lemma move_to_processed_trace:
  assumes "exists (files w) file_path"
  shows "\<exists>dst. dirname dst = processed_dir
           \<and> (trace (snd (move_to_processed E file_path processed_dir w))
                 = trace w @ [Move file_path dst]
              \<or> trace (snd (move_to_processed E file_path processed_dir w))
                 = trace w @ [Move file_path dst, Log INFO (MovedFile dst)])"
  using assms
  by (auto simp: move_to_processed_def Let_def strftime_now_def call_def log_def dirname_def
      split: sum.splits prod.splits)

lemma move_to_processed_other:
  assumes "\<not> is_prefix file_path q" and "\<And>x. \<not> is_prefix (processed_dir @ [x]) q"
    and "\<And>x. \<not> is_prefix q (processed_dir @ [x])"
  shows "map_of (files (snd (move_to_processed E file_path processed_dir w))) q
           = map_of (files w) q"
  using assms
  by (auto simp: move_to_processed_def Let_def strftime_now_def call_def log_def
      split: sum.splits prod.splits dest: shutil_move_other)




lemma process_directory_returns:
  "fst (process_directory E M dir_path output_dir processed_dir w) = Inr ()"
proof (cases "isdir (files w) dir_path")
  case False
  then show ?thesis by (simp add: process_directory_def)
next
  case True
  then have "listdir (files w) dir_path
      = Inr (map (\<lambda>(p, n). last p) (filter (\<lambda>(p, n). p \<noteq> [] \<and> butlast p = dir_path) (files w)))"
    by (simp add: listdir_def)
  then show ?thesis
    using True
    by (simp add: process_directory_def strftime_now_def Let_def split: sum.splits prod.splits)
qed

section \<open>The example inputs, evaluated\<close>

lemma audio_names:
  "is_audio_file ''a.mp3''" "is_audio_file ''b.mp3''" "is_audio_file ''c.mp3''"
  "is_audio_file ''talk.mp3''" "is_audio_file ''next.mp3''"
  "\<not> is_audio_file ''readme.txt''" "\<not> is_audio_file ''cover.jpg''"
  by (simp_all add: is_audio_file_def audio_extensions_def endswith_def lower_def lower_char_def)

lemma book_listing:
  "listdir book_storage [''srv'', ''dropbox'', ''book''] = Inr [''c.mp3'', ''a.mp3'', ''b.mp3'']"
  by (simp add: listdir_def book_storage_def isdir_def)

lemma book_open:
  "open_w example_env book_storage [''srv'', ''output'', ''book_20240101_120000.txt'']
     = Inr (book_storage @ [([''srv'', ''output'', ''book_20240101_120000.txt''], File [])])"
  by (simp add: open_w_def book_storage_def isdir_def dirname_def example_env_def)

lemma draft_listing:
  "listdir draft_storage [''srv'', ''dropbox'', ''draft''] = Inr [''c.mp3'', ''b.mp3'']"
  by (simp add: listdir_def draft_storage_def isdir_def)

lemma draft_open:
  "open_w example_env draft_storage [''srv'', ''output'', ''draft_20240101_120000.txt'']
     = Inr (truncate_file draft_storage [''srv'', ''output'', ''draft_20240101_120000.txt''])"
  by (simp add: open_w_def draft_storage_def)

lemma story_listing:
  "listdir story_storage [''srv'', ''dropbox'', ''story''] = Inr [''c.mp3'', ''readme.txt'', ''a.mp3'']"
  by (simp add: listdir_def story_storage_def isdir_def)


lemma notes_listing:
  "listdir notes_storage [''srv'', ''dropbox'', ''notes''] = Inr [''readme.txt'', ''cover.jpg'']"
  by (simp add: listdir_def notes_storage_def isdir_def)

lemma talk_output:
  "get_output_filename [''srv'', ''dropbox'', ''talk.mp3''] [''srv'', ''output'']
     = [''srv'', ''output'', ''talk.txt'']"
  by (simp add: get_output_filename_def basename_def splitext_def)

lemma rerun_item:
  "process_item example_env example_model [''srv'', ''dropbox''] [''srv'', ''output'']
       [''srv'', ''processed''] ''talk.mp3'' rerun_world
     = (Inr (),
        \<lparr>files =
           [([''srv''], Dir), ([''srv'', ''dropbox''], Dir), ([''srv'', ''output''], Dir),
            ([''srv'', ''processed''], Dir),
            ([''srv'', ''output'', ''talk.txt''], File ''earlier transcript''),
            ([''srv'', ''processed'', ''talk.mp3''], File ''T'')],
         trace =
           [Log INFO (ProcessingIndividual ''talk.mp3''),
            Log INFO (AlreadyProcessed [''srv'', ''dropbox'', ''talk.mp3'']),
            Move [''srv'', ''dropbox'', ''talk.mp3''] [''srv'', ''processed'', ''talk.mp3''],
            Log INFO (MovedFile [''srv'', ''processed'', ''talk.mp3''])],
         ticks = 0\<rparr>)"
  by (simp add: process_item_def process_audio_file_def move_to_processed_def shutil_move_def
      rename_def is_prefix_def talk_output audio_names rerun_world_def rerun_storage_def
      isdir_def exists_def basename_def dirname_def log_def call_def example_env_def Let_def)



lemma queue_setup:
  "setup_directories readonly_env [''srv''] queue_world
     = (Inr \<lparr>d_dropbox = [''srv'', ''dropbox''], d_output = [''srv'', ''output''],
              d_processed = [''srv'', ''processed'']\<rparr>,
        \<lparr>files = queue_storage,
         trace = [Log INFO (DirectoryReady ''dropbox'' [''srv'', ''dropbox'']),
                  Log INFO (DirectoryReady ''output'' [''srv'', ''output'']),
                  Log INFO (DirectoryReady ''processed'' [''srv'', ''processed''])],
         ticks = 0\<rparr>)"
  by (simp add: setup_directories_def makedirs_def upt_rec queue_world_def queue_storage_def
      isdir_def log_def)

lemma queue_talk:
  "files w = queue_storage \<Longrightarrow>
   process_item readonly_env example_model [''srv'', ''dropbox''] [''srv'', ''output'']
       [''srv'', ''processed''] ''talk.mp3'' w
     = (Inl PermissionError,
        w\<lparr>files := queue_storage @ [([''srv'', ''output'', ''talk.txt''], File ''text of talk.mp3'')],
          trace := trace w @
            [Log INFO (ProcessingIndividual ''talk.mp3''),
             Log INFO (ProcessingFile [''srv'', ''dropbox'', ''talk.mp3'']),
             Transcribe [''srv'', ''dropbox'', ''talk.mp3''],
             Open [''srv'', ''output'', ''talk.txt''],
             Log INFO (TranscriptionSaved [''srv'', ''output'', ''talk.txt'']),
             Move [''srv'', ''dropbox'', ''talk.mp3''] [''srv'', ''processed'', ''talk.mp3'']]\<rparr>)"
  by (simp add: process_item_def process_audio_file_def move_to_processed_def shutil_move_def
      open_w_def fwrite_def is_prefix_def talk_output audio_names queue_storage_def
      isdir_def exists_def basename_def dirname_def log_def call_def readonly_env_def
      example_env_def example_model_def Let_def)

lemma story_sealed:
  "open_w sealed_env story_storage [''srv'', ''output'', ''story_20240101_120000.txt'']
     = Inl PermissionError"
  by (simp add: open_w_def story_storage_def isdir_def dirname_def sealed_env_def)

section \<open>The claims\<close>




text \<open>
  C2. Failure isolation does not hold for a refused move of a single file. The drop location
  lists \<^verbatim>\<open>talk.mp3\<close> and \<^verbatim>\<open>next.mp3\<close>, the model transcribes both, and the archive directory
  is read-only. \<open>move_to_processed\<close> has no handler, so the \<open>PermissionError\<close> of the first
  move leaves \<open>process_dropbox\<close>: the run ends with the exception and the trace has no event
  for \<^verbatim>\<open>next.mp3\<close>.
\<close>

theorem move_failure_aborts_run:
  "process_dropbox readonly_env [''srv'', ''dropbox''] [''srv'', ''output'']
       [''srv'', ''processed''] ''base'' queue_world
     = (Raised PermissionError,
        \<lparr>files = queue_storage @ [([''srv'', ''output'', ''talk.txt''], File ''text of talk.mp3'')],
         trace =
           [Log INFO (LoadingModel ''base''),
            Log INFO (ProcessingIndividual ''talk.mp3''),
            Log INFO (ProcessingFile [''srv'', ''dropbox'', ''talk.mp3'']),
            Transcribe [''srv'', ''dropbox'', ''talk.mp3''],
            Open [''srv'', ''output'', ''talk.txt''],
            Log INFO (TranscriptionSaved [''srv'', ''output'', ''talk.txt'']),
            Move [''srv'', ''dropbox'', ''talk.mp3''] [''srv'', ''processed'', ''talk.mp3'']],
         ticks = 0\<rparr>)
   \<and> listdir queue_storage [''srv'', ''dropbox''] = Inr [''talk.mp3'', ''next.mp3'']
   \<and> is_audio_file ''next.mp3''
   \<and> example_model [''srv'', ''dropbox'', ''next.mp3''] = Inr ''text of next.mp3''"
proof -
  have ls: "listdir queue_storage [''srv'', ''dropbox''] = Inr [''talk.mp3'', ''next.mp3'']"
    by (simp add: listdir_def queue_storage_def isdir_def)
  have ex: "exists queue_storage [''srv'', ''dropbox'']"
    by (simp add: exists_def queue_storage_def)
  have env: "import_whisper readonly_env = None"
    "load_model readonly_env ''base'' = Inr example_model"
    by (simp_all add: readonly_env_def example_env_def)
  have nx: "example_model [''srv'', ''dropbox'', ''next.mp3''] = Inr ''text of next.mp3''"
    by (simp add: example_model_def basename_def)
  have "process_dropbox readonly_env [''srv'', ''dropbox''] [''srv'', ''output'']
       [''srv'', ''processed''] ''base'' queue_world
     = (Raised PermissionError,
        \<lparr>files = queue_storage @ [([''srv'', ''output'', ''talk.txt''], File ''text of talk.mp3'')],
         trace =
           [Log INFO (LoadingModel ''base''),
            Log INFO (ProcessingIndividual ''talk.mp3''),
            Log INFO (ProcessingFile [''srv'', ''dropbox'', ''talk.mp3'']),
            Transcribe [''srv'', ''dropbox'', ''talk.mp3''],
            Open [''srv'', ''output'', ''talk.txt''],
            Log INFO (TranscriptionSaved [''srv'', ''output'', ''talk.txt'']),
            Move [''srv'', ''dropbox'', ''talk.mp3''] [''srv'', ''processed'', ''talk.mp3'']],
         ticks = 0\<rparr>)"
    by (simp add: process_dropbox_def load_and_drain_def env ls ex queue_talk queue_world_def log_def)
  with ls nx show ?thesis by (simp add: audio_names)
qed

text \<open>
  C3. Collision-safe archival does not hold when the timestamped name is occupied too. The
  archive holds \<^verbatim>\<open>talk.mp3\<close> and \<^verbatim>\<open>talk_20240101_120000.mp3\<close>, and the clock stands at that
  second. \<open>move_to_processed\<close> appends the timestamp without looking at the new name, and
  the move replaces the archived file: its content \<open>second talk\<close> is lost.
\<close>

theorem second_collision_overwrites:
  "map_of collision_storage [''srv'', ''processed'', ''talk_20240101_120000.mp3'']
     = Some (File ''second talk'')
   \<and> move_to_processed example_env [''srv'', ''dropbox'', ''talk.mp3''] [''srv'', ''processed'']
         collision_world
       = (Inr (),
          \<lparr>files =
             [([''srv''], Dir), ([''srv'', ''dropbox''], Dir), ([''srv'', ''output''], Dir),
              ([''srv'', ''processed''], Dir),
              ([''srv'', ''processed'', ''talk.mp3''], File ''first talk''),
              ([''srv'', ''output'', ''talk.txt''], File ''earlier transcript''),
              ([''srv'', ''processed'', ''talk_20240101_120000.mp3''], File ''third talk'')],
           trace =
             [Move [''srv'', ''dropbox'', ''talk.mp3'']
                   [''srv'', ''processed'', ''talk_20240101_120000.mp3''],
              Log INFO (MovedFile [''srv'', ''processed'', ''talk_20240101_120000.mp3''])],
           ticks = 1\<rparr>)"
  by (simp add: move_to_processed_def shutil_move_def rename_def is_prefix_def strftime_now_def
      splitext_def collision_world_def collision_storage_def isdir_def exists_def basename_def
      dirname_def log_def call_def example_env_def Let_def)

text \<open>
  C4. Idempotent re-run of a single file. For an audio file of the drop location whose
  output artifact already exists, \<open>process_audio_file\<close> answers \<open>True\<close> after logging only
  that the file was already processed: the model is not called and the storage is not
  touched. The loop body of \<open>process_dropbox\<close> then calls \<open>move_to_processed\<close>: the trace
  gets a \<open>Move\<close> of the source into the archive location (and no \<open>Transcribe\<close>), and the
  output artifact is the same after the move.
\<close>

theorem existing_output_skips_transcription:
  assumes "exists (files w) (base @ [''dropbox'', item])"
    and "\<not> isdir (files w) (base @ [''dropbox'', item])"
    and "is_audio_file item"
    and "output_path = get_output_filename (base @ [''dropbox'', item]) (base @ [''output''])"
    and "exists (files w) output_path"
  shows "process_audio_file E M (base @ [''dropbox'', item]) (base @ [''output'']) w
           = (True, log INFO (AlreadyProcessed (base @ [''dropbox'', item])) w)
       \<and> (\<exists>dst. dirname dst = base @ [''processed'']
             \<and> (trace (snd (process_item E M (base @ [''dropbox'']) (base @ [''output''])
                               (base @ [''processed'']) item w))
                   = trace w @ [Log INFO (ProcessingIndividual item),
                                Log INFO (AlreadyProcessed (base @ [''dropbox'', item])),
                                Move (base @ [''dropbox'', item]) dst]
                \<or> trace (snd (process_item E M (base @ [''dropbox'']) (base @ [''output''])
                               (base @ [''processed'']) item w))
                   = trace w @ [Log INFO (ProcessingIndividual item),
                                Log INFO (AlreadyProcessed (base @ [''dropbox'', item])),
                                Move (base @ [''dropbox'', item]) dst,
                                Log INFO (MovedFile dst)]))
       \<and> map_of (files (snd (process_item E M (base @ [''dropbox'']) (base @ [''output''])
                               (base @ [''processed'']) item w))) output_path
           = map_of (files w) output_path"
proof -
  let ?src = "base @ [''dropbox'', item]"
  let ?w1 = "log INFO (AlreadyProcessed ?src) (log INFO (ProcessingIndividual item) w)"
  have paf: "process_audio_file E M ?src (base @ [''output'']) v
               = (True, log INFO (AlreadyProcessed ?src) v)"
    if "files v = files w" for v
    using assms(1,5) that unfolding assms(4)
    by (simp add: process_audio_file_def Let_def)
  have item: "process_item E M (base @ [''dropbox'']) (base @ [''output'']) (base @ [''processed'']) item w
                = move_to_processed E ?src (base @ [''processed'']) ?w1"
    using assms(2,3) by (simp add: process_item_def paf log_def Let_def)
  have ex: "exists (files ?w1) ?src" using assms(1) by (simp add: log_def)
  have tr: "trace ?w1 = trace w @ [Log INFO (ProcessingIndividual item),
                                   Log INFO (AlreadyProcessed ?src)]"
    by (simp add: log_def)
  have out: "output_path = base @ [''output'', fst (splitext item) @ ''.txt'']"
    unfolding assms(4) by (simp add: get_output_filename_def basename_def)
  have np1: "\<not> is_prefix ?src output_path"
    unfolding out using not_prefix_sibling[of "''dropbox''" "''output''" base "[item]"] by simp
  have np2: "\<not> is_prefix ((base @ [''processed'']) @ [x]) output_path" for x
    unfolding out using not_prefix_sibling[of "''processed''" "''output''" base "[x]"] by simp
  have np3: "\<not> is_prefix output_path ((base @ [''processed'']) @ [x])" for x
    unfolding out using not_prefix_sibling[of "''output''" "''processed''" base _ "[x]"] by simp
  have kept: "map_of (files (snd (move_to_processed E ?src (base @ [''processed'']) ?w1))) output_path
                = map_of (files w) output_path"
    using move_to_processed_other[OF np1 np2 np3, of E ?w1] by (simp add: log_def)
  show ?thesis
    using paf[of w] move_to_processed_trace[OF ex, of "base @ [''processed'']" E] kept
    unfolding item tr by auto
qed

theorem existing_output_skips_transcription_witness:
  "process_audio_file example_env example_model [''srv'', ''dropbox'', ''talk.mp3'']
       [''srv'', ''output''] rerun_world
     = (True, log INFO (AlreadyProcessed [''srv'', ''dropbox'', ''talk.mp3'']) rerun_world)
   \<and> map_of (files (snd (process_item example_env example_model [''srv'', ''dropbox'']
                          [''srv'', ''output''] [''srv'', ''processed''] ''talk.mp3'' rerun_world)))
       [''srv'', ''output'', ''talk.txt''] = Some (File ''earlier transcript'')
   \<and> trace (snd (process_item example_env example_model [''srv'', ''dropbox'']
                          [''srv'', ''output''] [''srv'', ''processed''] ''talk.mp3'' rerun_world))
     = [Log INFO (ProcessingIndividual ''talk.mp3''),
        Log INFO (AlreadyProcessed [''srv'', ''dropbox'', ''talk.mp3'']),
        Move [''srv'', ''dropbox'', ''talk.mp3''] [''srv'', ''processed'', ''talk.mp3''],
        Log INFO (MovedFile [''srv'', ''processed'', ''talk.mp3''])]"
proof -
  have h1: "exists (files rerun_world) ([''srv''] @ [''dropbox'', ''talk.mp3''])"
    by (simp add: rerun_world_def rerun_storage_def exists_def)
  have h2: "\<not> isdir (files rerun_world) ([''srv''] @ [''dropbox'', ''talk.mp3''])"
    by (simp add: rerun_world_def rerun_storage_def isdir_def)
  have h3: "is_audio_file ''talk.mp3''" by (simp add: audio_names)
  have h4: "[''srv'', ''output'', ''talk.txt'']
      = get_output_filename ([''srv''] @ [''dropbox'', ''talk.mp3'']) ([''srv''] @ [''output''])"
    by (simp add: talk_output)
  have h5: "exists (files rerun_world) [''srv'', ''output'', ''talk.txt'']"
    by (simp add: rerun_world_def rerun_storage_def exists_def)
  have before: "map_of (files rerun_world) [''srv'', ''output'', ''talk.txt'']
                  = Some (File ''earlier transcript'')"
    by (simp add: rerun_world_def rerun_storage_def)
  note t = existing_output_skips_transcription[OF h1 h2 h3 h4 h5,
      of example_env example_model]
  from t have c1: "process_audio_file example_env example_model [''srv'', ''dropbox'', ''talk.mp3'']
       [''srv'', ''output''] rerun_world
     = (True, log INFO (AlreadyProcessed [''srv'', ''dropbox'', ''talk.mp3'']) rerun_world)"
    by simp
  from t before have c2: "map_of (files (snd (process_item example_env example_model
        [''srv'', ''dropbox''] [''srv'', ''output''] [''srv'', ''processed''] ''talk.mp3'' rerun_world)))
       [''srv'', ''output'', ''talk.txt''] = Some (File ''earlier transcript'')"
    by simp
  from c1 c2 show ?thesis by (simp add: rerun_item)
qed



text \<open>
  C6. Partial-failure containment in a collection. When the transcription of part \<open>k\<close> fails
  (the parts before it, \<open>pre\<close>, succeeded, and the aggregate output could be opened), the
  run transcribes exactly the parts up to \<open>k\<close> and none after it, the aggregate output holds
  the sections of the parts before \<open>k\<close>, and the failure is reported with the count
  \<open>length pre\<close>, which is \<open>k - 1\<close>.
\<close>

theorem part_failure_contained:
  assumes "listdir (files w) dir_path = Inr names"
    and "map (\<lambda>f. dir_path @ [f]) (filter is_audio_file (sort names)) = pre @ a # post"
    and "\<forall>p\<in>set pre. \<exists>t. M p = Inr t"
    and "M a = Inl e"
    and "out = output_dir @ [basename dir_path @ ''_'' @ now E (ticks w) @ ''.txt'']"
    and "open_w E (files w) out = Inr F"
  shows "fst (process_directory E M dir_path output_dir processed_dir w) = Inr ()
       \<and> trace (snd (process_directory E M dir_path output_dir processed_dir w)) =
           trace w @ Open out # part_events (length (pre @ a # post)) 0 pre
             @ [Log INFO (ProcessingPart (length pre + 1) (length (pre @ a # post)) a),
                Transcribe a,
                Log ERROR (ErrorAudiobook e),
                Log INFO (ProcessedBeforeError (length pre) (length (pre @ a # post)))]
       \<and> files (snd (process_directory E M dir_path output_dir processed_dir w)) =
           fwrite F out (sections M pre)
       \<and> map_of (files (snd (process_directory E M dir_path output_dir processed_dir w))) out =
           Some (File (sections M pre))"
proof -
  have ne: "pre @ a # post \<noteq> []" by simp
  have op: "open_w E (files (w\<lparr>ticks := Suc (ticks w)\<rparr>)) out = Inr F"
    using assms(6) by simp
  have pd: "process_directory E M dir_path output_dir processed_dir w =
      (Inr (), log INFO (ProcessedBeforeError (length pre) (length (pre @ a # post)))
        (log ERROR (ErrorAudiobook e)
          (w\<lparr>ticks := Suc (ticks w), files := fwrite F out (sections M pre),
             trace := trace w @ Open out # part_events (length (pre @ a # post)) 0 pre
                 @ [Log INFO (ProcessingPart (length pre + 1) (length (pre @ a # post)) a),
                    Transcribe a]\<rparr>)))"
    by (simp add: process_directory_nonempty[OF assms(1) assms(2)[symmetric] ne assms(5)]
        archive_part_fails[OF op assms(3,4)])
  have "map_of F out = Some (File [])"
    using map_of_open_w[OF assms(6), of out] by simp
  then have "map_of (fwrite F out (sections M pre)) out = Some (File (sections M pre))"
    by (simp add: map_of_fwrite)
  then show ?thesis by (simp add: pd log_def)
qed

theorem part_failure_contained_witness:
  "trace (snd (process_directory example_env example_model [''srv'', ''dropbox'', ''book'']
                 [''srv'', ''output''] [''srv'', ''processed''] book_world)) =
     [Open [''srv'', ''output'', ''book_20240101_120000.txt''],
      Log INFO (ProcessingPart 1 3 [''srv'', ''dropbox'', ''book'', ''a.mp3'']),
      Transcribe [''srv'', ''dropbox'', ''book'', ''a.mp3''],
      Log INFO (ProcessingPart 2 3 [''srv'', ''dropbox'', ''book'', ''b.mp3'']),
      Transcribe [''srv'', ''dropbox'', ''book'', ''b.mp3''],
      Log ERROR (ErrorAudiobook (ModelError ''unreadable audio'')),
      Log INFO (ProcessedBeforeError 1 3)]
   \<and> map_of (files (snd (process_directory example_env example_model
                 [''srv'', ''dropbox'', ''book''] [''srv'', ''output''] [''srv'', ''processed'']
                 book_world)))
       [''srv'', ''output'', ''book_20240101_120000.txt''] =
     Some (File (chapter_header ''a.mp3'' @ ''text of a.mp3''))
   \<and> isdir (files (snd (process_directory example_env example_model
                 [''srv'', ''dropbox'', ''book''] [''srv'', ''output''] [''srv'', ''processed'']
                 book_world))) [''srv'', ''dropbox'', ''book'']"
proof -
  have h1: "listdir (files book_world) [''srv'', ''dropbox'', ''book'']
              = Inr [''c.mp3'', ''a.mp3'', ''b.mp3'']"
    by (simp add: book_world_def book_listing)
  have h2: "map (\<lambda>f. [''srv'', ''dropbox'', ''book''] @ [f])
              (filter is_audio_file (sort [''c.mp3'', ''a.mp3'', ''b.mp3'']))
            = [[''srv'', ''dropbox'', ''book'', ''a.mp3'']]
              @ [''srv'', ''dropbox'', ''book'', ''b.mp3'']
              # [[''srv'', ''dropbox'', ''book'', ''c.mp3'']]"
    by (simp add: audio_names)
  have h3: "\<forall>p\<in>set [[''srv'', ''dropbox'', ''book'', ''a.mp3'']]. \<exists>t. example_model p = Inr t"
    by (simp add: example_model_def basename_def)
  have h4: "example_model [''srv'', ''dropbox'', ''book'', ''b.mp3'']
              = Inl (ModelError ''unreadable audio'')"
    by (simp add: example_model_def basename_def)
  have h5: "[''srv'', ''output'', ''book_20240101_120000.txt''] =
      [''srv'', ''output''] @ [basename [''srv'', ''dropbox'', ''book''] @ ''_''
         @ now example_env (ticks book_world) @ ''.txt'']"
    by (simp add: basename_def example_env_def)
  have h6: "open_w example_env (files book_world) [''srv'', ''output'', ''book_20240101_120000.txt'']
     = Inr (book_storage @ [([''srv'', ''output'', ''book_20240101_120000.txt''], File [])])"
    by (simp add: book_world_def book_open)
  have secs: "sections example_model [[''srv'', ''dropbox'', ''book'', ''a.mp3'']]
               = chapter_header ''a.mp3'' @ ''text of a.mp3''"
    by (simp add: sections_def text_of_def example_model_def basename_def)
  have kept: "isdir (fwrite (book_storage @ [([''srv'', ''output'', ''book_20240101_120000.txt''], File [])])
                  [''srv'', ''output'', ''book_20240101_120000.txt'']
                  (chapter_header ''a.mp3'' @ ''text of a.mp3''))
                [''srv'', ''dropbox'', ''book'']"
    by (simp add: isdir_def map_of_fwrite book_storage_def)
  show ?thesis
    using part_failure_contained[OF h1 h2 h3 h4 h5 h6, of "[''srv'', ''processed'']"] kept
    by (simp add: secs book_world_def[THEN arg_cong, of trace] map_of_fwrite book_storage_def)
qed

text \<open>
  C7. A single audio file whose transcription fails. \<open>process_audio_file\<close> answers \<open>False\<close>
  and leaves the storage as it was, and the loop body of \<open>process_dropbox\<close> then does
  nothing more: no \<open>Open\<close> and no \<open>Move\<close> event follows the failed \<open>Transcribe\<close>, so no
  output artifact is written and the source stays in the drop location.
\<close>

theorem single_file_failure_no_side_effect:
  assumes "exists (files w) (dropbox_dir @ [item])"
    and "\<not> isdir (files w) (dropbox_dir @ [item])"
    and "is_audio_file item"
    and "\<not> exists (files w) (get_output_filename (dropbox_dir @ [item]) output_dir)"
    and "M (dropbox_dir @ [item]) = Inl e"
  shows "fst (process_audio_file E M (dropbox_dir @ [item]) output_dir w) = False
       \<and> files (snd (process_audio_file E M (dropbox_dir @ [item]) output_dir w)) = files w
       \<and> process_item E M dropbox_dir output_dir processed_dir item w =
           (Inr (), w\<lparr>trace := trace w @
              [Log INFO (ProcessingIndividual item),
               Log INFO (ProcessingFile (dropbox_dir @ [item])),
               Transcribe (dropbox_dir @ [item]),
               Log ERROR (ErrorProcessing (dropbox_dir @ [item]) e)]\<rparr>)"
  using assms
  by (simp add: process_audio_file_def process_item_def log_def call_def Let_def)

theorem single_file_failure_no_side_effect_witness:
  "fst (process_audio_file example_env example_model [''srv'', ''dropbox'', ''b.mp3'']
          [''srv'', ''output''] single_world) = False
   \<and> process_item example_env example_model [''srv'', ''dropbox''] [''srv'', ''output'']
         [''srv'', ''processed''] ''b.mp3'' single_world =
       (Inr (), \<lparr>files = single_storage,
                 trace = [Log INFO (ProcessingIndividual ''b.mp3''),
                          Log INFO (ProcessingFile [''srv'', ''dropbox'', ''b.mp3'']),
                          Transcribe [''srv'', ''dropbox'', ''b.mp3''],
                          Log ERROR (ErrorProcessing [''srv'', ''dropbox'', ''b.mp3'']
                                       (ModelError ''unreadable audio''))],
                 ticks = 0\<rparr>)
   \<and> \<not> exists single_storage [''srv'', ''output'', ''b.txt'']
   \<and> exists single_storage [''srv'', ''dropbox'', ''b.mp3'']"
proof -
  have h1: "exists (files single_world) ([''srv'', ''dropbox''] @ [''b.mp3''])"
    by (simp add: single_world_def single_storage_def exists_def)
  have h2: "\<not> isdir (files single_world) ([''srv'', ''dropbox''] @ [''b.mp3''])"
    by (simp add: single_world_def single_storage_def isdir_def)
  have h3: "is_audio_file ''b.mp3''" by (simp add: audio_names)
  have o: "get_output_filename ([''srv'', ''dropbox''] @ [''b.mp3'']) [''srv'', ''output'']
             = [''srv'', ''output'', ''b.txt'']"
    by (simp add: get_output_filename_def basename_def splitext_def)
  have h4: "\<not> exists (files single_world)
              (get_output_filename ([''srv'', ''dropbox''] @ [''b.mp3'']) [''srv'', ''output''])"
    unfolding o by (simp add: single_world_def single_storage_def exists_def)
  have h5: "example_model ([''srv'', ''dropbox''] @ [''b.mp3'']) = Inl (ModelError ''unreadable audio'')"
    by (simp add: example_model_def basename_def)
  have e: "\<not> exists single_storage [''srv'', ''output'', ''b.txt'']
         \<and> exists single_storage [''srv'', ''dropbox'', ''b.mp3'']"
    by (simp add: single_storage_def exists_def)
  show ?thesis
    using single_file_failure_no_side_effect[where w = single_world
        and dropbox_dir = "[''srv'', ''dropbox'']" and item = "''b.mp3''"
        and output_dir = "[''srv'', ''output'']" and M = example_model and E = example_env
        and processed_dir = "[''srv'', ''processed'']", OF h1 h2 h3 h4 h5] e
    by (simp add: single_world_def)
qed

text \<open>
  C8. The exit status is not zero after a refused move of a single file. The drop location
  lists \<^verbatim>\<open>talk.mp3\<close> and \<^verbatim>\<open>next.mp3\<close> and the archive directory is read-only. Whisper is
  imported and the model is loaded, and still the \<open>PermissionError\<close> of \<^verbatim>\<open>shutil.move\<close>, which
  neither \<open>process_dropbox\<close> nor \<open>main\<close> catches, ends the process with status 1.
\<close>

theorem move_failure_exit_status:
  "exit_status (fst (main readonly_env ''base'' [''srv''] queue_world)) = 1
   \<and> import_whisper readonly_env = None
   \<and> load_model readonly_env ''base'' = Inr example_model"
proof -
  have ls: "listdir queue_storage [''srv'', ''dropbox''] = Inr [''talk.mp3'', ''next.mp3'']"
    by (simp add: listdir_def queue_storage_def isdir_def)
  have ex: "exists queue_storage [''srv'', ''dropbox'']"
    by (simp add: exists_def queue_storage_def)
  have env: "import_whisper readonly_env = None"
    "load_model readonly_env ''base'' = Inr example_model"
    by (simp_all add: readonly_env_def example_env_def)
  have "fst (main readonly_env ''base'' [''srv''] queue_world) = Raised PermissionError"
    by (simp add: main_def queue_setup process_dropbox_def load_and_drain_def env ls ex
        queue_talk log_def)
  then show ?thesis by (simp add: env)
qed

text \<open>
  C9. An empty collection is a no-op. For a directory none of whose entries passes the
  audio-file test, \<open>process_directory\<close> returns after logging one warning: the storage is
  unchanged (no aggregate output, no move) and the warning is the only new event.
\<close>

theorem empty_collection_is_noop:
  assumes "listdir (files w) dir_path = Inr names"
    and "\<forall>f\<in>set names. \<not> is_audio_file f"
  shows "fst (process_directory E M dir_path output_dir processed_dir w) = Inr ()
       \<and> files (snd (process_directory E M dir_path output_dir processed_dir w)) = files w
       \<and> trace (snd (process_directory E M dir_path output_dir processed_dir w))
           = trace w @ [Log WARNING (NoAudioFiles dir_path)]"
proof -
  have "isdir (files w) dir_path" using assms(1) by (rule listdir_isdir)
  moreover have "filter is_audio_file (sort names) = []"
    using assms(2) by (simp add: filter_empty_conv)
  ultimately show ?thesis
    using assms(1) by (simp add: process_directory_def strftime_now_def log_def)
qed

theorem empty_collection_is_noop_witness:
  "fst (process_directory example_env example_model [''srv'', ''dropbox'', ''notes'']
          [''srv'', ''output''] [''srv'', ''processed''] notes_world) = Inr ()
   \<and> files (snd (process_directory example_env example_model [''srv'', ''dropbox'', ''notes'']
          [''srv'', ''output''] [''srv'', ''processed''] notes_world)) = notes_storage
   \<and> trace (snd (process_directory example_env example_model [''srv'', ''dropbox'', ''notes'']
          [''srv'', ''output''] [''srv'', ''processed''] notes_world))
       = [Log WARNING (NoAudioFiles [''srv'', ''dropbox'', ''notes''])]"
proof -
  have h1: "listdir (files notes_world) [''srv'', ''dropbox'', ''notes'']
              = Inr [''readme.txt'', ''cover.jpg'']"
    by (simp add: notes_world_def notes_listing)
  have h2: "\<forall>f\<in>set [''readme.txt'', ''cover.jpg'']. \<not> is_audio_file f"
    by (simp add: audio_names)
  show ?thesis
    using empty_collection_is_noop[OF h1 h2, of example_env example_model
        "[''srv'', ''output'']" "[''srv'', ''processed'']"]
    by (simp add: notes_world_def)
qed

text \<open>
  C10. For a collection with at least one audio part, the first thing the run does to the
  outside is to open the timestamped aggregate output for writing: the \<open>Open\<close> event comes
  before every \<open>Transcribe\<close> event, and when the output cannot be opened no part is
  attempted. When it is opened and the first part fails, the aggregate output exists after
  the run and is empty: it holds no section.
\<close>

theorem output_opened_before_first_part:
  assumes "listdir (files w) dir_path = Inr names"
    and "parts = map (\<lambda>f. dir_path @ [f]) (filter is_audio_file (sort names))"
    and "parts \<noteq> []"
    and "out = output_dir @ [basename dir_path @ ''_'' @ now E (ticks w) @ ''.txt'']"
  shows "(\<exists>evs. trace (snd (process_directory E M dir_path output_dir processed_dir w))
                  = trace w @ Open out # evs)
       \<and> (\<forall>e. open_w E (files w) out = Inl e \<longrightarrow>
              trace (snd (process_directory E M dir_path output_dir processed_dir w))
                = trace w @ [Open out, Log ERROR (ErrorAudiobook e),
                             Log INFO (ProcessedBeforeError 0 (length parts))])
       \<and> (\<forall>F e. open_w E (files w) out = Inr F \<longrightarrow> M (hd parts) = Inl e \<longrightarrow>
              map_of (files (snd (process_directory E M dir_path output_dir processed_dir w))) out
                = Some (File [])
            \<and> trace (snd (process_directory E M dir_path output_dir processed_dir w))
                = trace w @ [Open out, Log INFO (ProcessingPart 1 (length parts) (hd parts)),
                             Transcribe (hd parts), Log ERROR (ErrorAudiobook e),
                             Log INFO (ProcessedBeforeError 0 (length parts))])"
proof -
  let ?w0 = "w\<lparr>ticks := Suc (ticks w)\<rparr>"
  note pd = process_directory_nonempty[OF assms(1,2,3,4), of M processed_dir]
  have first: "\<exists>evs. trace (snd (process_directory E M dir_path output_dir processed_dir w))
                  = trace w @ Open out # evs"
  proof -
    obtain r pf w1 where ta: "transcribe_and_archive E M dir_path processed_dir (now E (ticks w))
        out parts ?w0 = (r, pf, w1)"
      by (metis prod_cases3)
    obtain evs where "trace w1 = trace w @ Open out # evs"
      using archive_trace[of E M dir_path processed_dir "now E (ticks w)" out parts ?w0]
      by (auto simp: ta)
    then show ?thesis
      by (cases r) (auto simp: pd ta log_def)
  qed
  have second: "trace (snd (process_directory E M dir_path output_dir processed_dir w))
                = trace w @ [Open out, Log ERROR (ErrorAudiobook e),
                             Log INFO (ProcessedBeforeError 0 (length parts))]"
    if "open_w E (files w) out = Inl e" for e
  proof -
    have "open_w E (files ?w0) out = Inl e" using that by simp
    then show ?thesis by (simp add: pd archive_open_fails log_def)
  qed
  have third: "map_of (files (snd (process_directory E M dir_path output_dir processed_dir w))) out
                = Some (File [])
            \<and> trace (snd (process_directory E M dir_path output_dir processed_dir w))
                = trace w @ [Open out, Log INFO (ProcessingPart 1 (length parts) (hd parts)),
                             Transcribe (hd parts), Log ERROR (ErrorAudiobook e),
                             Log INFO (ProcessedBeforeError 0 (length parts))]"
    if op: "open_w E (files w) out = Inr F" and fl: "M (hd parts) = Inl e" for F e
  proof -
    obtain a post where parts: "parts = [] @ a # post"
      using assms(3) by (cases parts) auto
    have a: "M a = Inl e" using fl parts by simp
    have op0: "open_w E (files ?w0) out = Inr F" using op by simp
    have none: "\<forall>p\<in>set []. \<exists>t. M p = Inr t" by simp
    have "map_of F out = Some (File [])"
      using map_of_open_w[OF op, of out] by simp
    then show ?thesis
      using archive_part_fails[OF op0 none a, of dir_path processed_dir "now E (ticks w)" post]
      by (simp add: pd parts log_def sections_def fwrite_Nil)
  qed
  from first second third show ?thesis by blast
qed

theorem output_opened_before_first_part_witness:
  "trace (snd (process_directory example_env example_model [''srv'', ''dropbox'', ''draft'']
                 [''srv'', ''output''] [''srv'', ''processed''] draft_world)) =
     [Open [''srv'', ''output'', ''draft_20240101_120000.txt''],
      Log INFO (ProcessingPart 1 2 [''srv'', ''dropbox'', ''draft'', ''b.mp3'']),
      Transcribe [''srv'', ''dropbox'', ''draft'', ''b.mp3''],
      Log ERROR (ErrorAudiobook (ModelError ''unreadable audio'')),
      Log INFO (ProcessedBeforeError 0 2)]
   \<and> map_of (files (snd (process_directory example_env example_model
                 [''srv'', ''dropbox'', ''draft''] [''srv'', ''output''] [''srv'', ''processed'']
                 draft_world)))
       [''srv'', ''output'', ''draft_20240101_120000.txt''] = Some (File [])
   \<and> trace (snd (process_directory sealed_env example_model [''srv'', ''dropbox'', ''story'']
                 [''srv'', ''output''] [''srv'', ''processed''] story_world)) =
     [Open [''srv'', ''output'', ''story_20240101_120000.txt''],
      Log ERROR (ErrorAudiobook PermissionError),
      Log INFO (ProcessedBeforeError 0 2)]"
proof -
  let ?parts = "[[''srv'', ''dropbox'', ''draft'', ''b.mp3''], [''srv'', ''dropbox'', ''draft'', ''c.mp3'']]"
  let ?out = "[''srv'', ''output'', ''draft_20240101_120000.txt'']"
  have h1: "listdir (files draft_world) [''srv'', ''dropbox'', ''draft''] = Inr [''c.mp3'', ''b.mp3'']"
    by (simp add: draft_world_def draft_listing)
  have h2: "?parts = map (\<lambda>f. [''srv'', ''dropbox'', ''draft''] @ [f])
                       (filter is_audio_file (sort [''c.mp3'', ''b.mp3'']))"
    by (simp add: audio_names)
  have h3: "?parts \<noteq> []" by simp
  have h4: "?out = [''srv'', ''output''] @ [basename [''srv'', ''dropbox'', ''draft''] @ ''_''
         @ now example_env (ticks draft_world) @ ''.txt'']"
    by (simp add: basename_def example_env_def)
  have h5: "open_w example_env (files draft_world) ?out = Inr (truncate_file draft_storage ?out)"
    by (simp add: draft_world_def draft_open)
  have h6: "example_model (hd ?parts) = Inl (ModelError ''unreadable audio'')"
    by (simp add: example_model_def basename_def)
  have tr: "trace draft_world = []" by (simp add: draft_world_def)
  note opened = output_opened_before_first_part[OF h1 h2 h3 h4,
      of example_model "[''srv'', ''processed'']",
      THEN conjunct2, THEN conjunct2, rule_format, OF h5 h6]
  let ?sparts = "[[''srv'', ''dropbox'', ''story'', ''a.mp3''], [''srv'', ''dropbox'', ''story'', ''c.mp3'']]"
  let ?sout = "[''srv'', ''output'', ''story_20240101_120000.txt'']"
  have s1: "listdir (files story_world) [''srv'', ''dropbox'', ''story'']
              = Inr [''c.mp3'', ''readme.txt'', ''a.mp3'']"
    by (simp add: story_world_def story_listing)
  have s2: "?sparts = map (\<lambda>f. [''srv'', ''dropbox'', ''story''] @ [f])
                        (filter is_audio_file (sort [''c.mp3'', ''readme.txt'', ''a.mp3'']))"
    by (simp add: audio_names)
  have s3: "?sparts \<noteq> []" by simp
  have s4: "?sout = [''srv'', ''output''] @ [basename [''srv'', ''dropbox'', ''story''] @ ''_''
         @ now sealed_env (ticks story_world) @ ''.txt'']"
    by (simp add: basename_def sealed_env_def example_env_def)
  have s5: "open_w sealed_env (files story_world) ?sout = Inl PermissionError"
    by (simp add: story_world_def story_sealed)
  have str: "trace story_world = []" by (simp add: story_world_def)
  note refused = output_opened_before_first_part[OF s1 s2 s3 s4,
      of example_model "[''srv'', ''processed'']",
      THEN conjunct2, THEN conjunct1, rule_format, OF s5]
  from opened refused show ?thesis by (simp add: tr str)
qed

end
